theory Spec2Isabelle
  imports Complex_Main "HOL-Library.AList" "HOL-Library.Sublist"
begin

section \<open>Clock\<close>

text \<open>
  A Python \<^verbatim>\<open>datetime\<close> is modelled as the number of microseconds since a fixed local
  epoch (a midnight), a \<^verbatim>\<open>timedelta\<close> as a difference of two of them. Floats are
  modelled as reals throughout.
\<close>

type_synonym datetime = int

definition hour :: "datetime \<Rightarrow> int" where
  \<comment> \<open>\<^verbatim>\<open>datetime.hour\<close>\<close>
  "hour t = (t div 3600000000) mod 24"

definition seconds :: "int \<Rightarrow> int" where
  \<comment> \<open>\<^verbatim>\<open>timedelta.seconds\<close>: the seconds field of the normalised difference, without the days\<close>
  "seconds d = (d div 1000000) mod 86400"

section \<open>Signal validator (utils/signal\_validator.py)\<close>

record settings =
  confidence_threshold :: real

text \<open>
  The dictionary handed to the validator. \<open>sig_symbol\<close> is what
  \<^verbatim>\<open>signal.get('symbol')\<close> returns: \<open>None\<close> when the key is absent.
\<close>

record signal =
  sig_symbol :: "string option"
  sig_action :: string
  sig_confidence :: real
  sig_reason :: string
  sig_votes :: "(string \<times> real) list"

record signal_record =
  rec_symbol :: string
  rec_action :: string
  rec_confidence :: real
  rec_timestamp :: datetime

record signal_validator =
  recent_signals :: "signal_record list"
  max_signal_history :: nat

definition new_signal_validator :: signal_validator where
  "new_signal_validator = \<lparr>recent_signals = [], max_signal_history = 100\<rparr>"

definition validate_basic_structure :: "signal \<Rightarrow> bool" where
  \<comment> \<open>the two required keys are fields of the record, and the confidence is a number by type\<close>
  "validate_basic_structure sg =
     (if sig_action sg \<notin> set [''BUY'', ''SELL'', ''HOLD''] then False else True)"

definition validate_confidence :: "settings \<Rightarrow> signal \<Rightarrow> bool" where
  "validate_confidence st sg =
     (if sig_confidence sg < confidence_threshold st then False else True)"

definition validate_market_conditions :: "datetime \<Rightarrow> string \<Rightarrow> signal \<Rightarrow> bool" where
  "validate_market_conditions now symbol sg =
     (let current_hour = hour now
      in if \<not> (0 \<le> current_hour \<and> current_hour \<le> 23) then False else True)"

definition validate_risk_management :: "signal \<Rightarrow> bool" where
  "validate_risk_management sg = True"

definition last_n :: "nat \<Rightarrow> 'a list \<Rightarrow> 'a list" where
  \<comment> \<open>the slice \<^verbatim>\<open>xs[-n:]\<close> for a positive \<open>n\<close>\<close>
  "last_n n xs = drop (length xs - n) xs"

definition same_symbol :: "signal \<Rightarrow> signal_record \<Rightarrow> bool" where
  \<comment> \<open>\<^verbatim>\<open>s.get('symbol') == signal.get('symbol')\<close>\<close>
  "same_symbol sg s = (Some (rec_symbol s) = sig_symbol sg)"

definition validate_signal_frequency :: "signal_validator \<Rightarrow> datetime \<Rightarrow> signal \<Rightarrow> bool" where
  "validate_signal_frequency v now sg =
     (let recent_symbol_signals = filter (same_symbol sg) (last_n 20 (recent_signals v))
      in if length recent_symbol_signals \<ge> 3 then False
         else (case find (same_symbol sg) (rev (recent_signals v)) of
                 None \<Rightarrow> True
               | Some last_signal \<Rightarrow>
                   (let time_diff = seconds (now - rec_timestamp last_signal)
                    in if time_diff < 60 then False else True)))"

definition validate_volatility :: "string \<Rightarrow> signal \<Rightarrow> bool" where
  "validate_volatility symbol sg = True"

definition validate_spread :: "string \<Rightarrow> signal \<Rightarrow> bool" where
  "validate_spread symbol sg = True"

definition record_signal :: "datetime \<Rightarrow> signal_validator \<Rightarrow> signal \<Rightarrow> signal_validator" where
  "record_signal now v sg =
     (let signal_record =
            \<lparr>rec_symbol = (case sig_symbol sg of None \<Rightarrow> ''UNKNOWN'' | Some s \<Rightarrow> s),
             rec_action = sig_action sg,
             rec_confidence = sig_confidence sg,
             rec_timestamp = now\<rparr>;
          appended = recent_signals v @ [signal_record]
      in v\<lparr>recent_signals :=
             (if length appended > max_signal_history v then tl appended else appended)\<rparr>)"

text \<open>
  \<open>validate_signal\<close> returns the verdict and the validator after the call. One reading
  of the clock serves the whole call.
\<close>

definition validate_signal ::
  "settings \<Rightarrow> datetime \<Rightarrow> signal_validator \<Rightarrow> string \<Rightarrow> signal \<Rightarrow> bool \<times> signal_validator" where
  "validate_signal st now v symbol sg =
     (if \<not> validate_basic_structure sg then (False, v)
      else if \<not> validate_confidence st sg then (False, v)
      else if \<not> validate_market_conditions now symbol sg then (False, v)
      else if \<not> validate_risk_management sg then (False, v)
      else if \<not> validate_signal_frequency v now sg then (False, v)
      else if \<not> validate_volatility symbol sg then (False, v)
      else if \<not> validate_spread symbol sg then (False, v)
      else (True, record_signal now v sg))"

section \<open>Communication manager (communication.py)\<close>

record zmq_bridge =
  zmq_running :: bool
  publisher :: "nat option"
  responder :: "nat option"

record websocket_bridge =
  ws_running :: bool
  server :: "nat option"

definition zmq_is_healthy :: "zmq_bridge \<Rightarrow> bool" where
  "zmq_is_healthy b = (zmq_running b \<and> publisher b \<noteq> None \<and> responder b \<noteq> None)"

definition ws_is_healthy :: "websocket_bridge \<Rightarrow> bool" where
  "ws_is_healthy b = (ws_running b \<and> server b \<noteq> None)"

datatype bridge_name = ZMQ | WebSocket

record communication_manager =
  the_zmq_bridge :: zmq_bridge
  the_websocket_bridge :: websocket_bridge
  active_bridge :: bridge_name
  failover_enabled :: bool
  health_check_interval :: nat
  cm_running :: bool

text \<open>One iteration of the loop of \<^verbatim>\<open>_health_monitor\<close>, up to its sleep.\<close>

definition health_monitor_tick :: "communication_manager \<Rightarrow> communication_manager" where
  "health_monitor_tick cm =
     (let zmq_healthy = zmq_is_healthy (the_zmq_bridge cm);
          ws_healthy = ws_is_healthy (the_websocket_bridge cm)
      in if active_bridge cm = ZMQ \<and> \<not> zmq_healthy \<and> ws_healthy
           then cm\<lparr>active_bridge := WebSocket\<rparr>
         else if active_bridge cm = WebSocket \<and> \<not> ws_healthy \<and> zmq_healthy
           then cm\<lparr>active_bridge := ZMQ\<rparr>
         else cm)"

text \<open>
  The loop itself: \<open>world\<close> gives, for each interval, what the bridges have become
  since the last tick; the monitor runs one tick per interval while the manager runs.
\<close>

fun health_monitor ::
  "(communication_manager \<Rightarrow> communication_manager) list \<Rightarrow> communication_manager
     \<Rightarrow> communication_manager" where
  "health_monitor [] cm = cm"
| "health_monitor (world # rest) cm =
     (if cm_running cm then health_monitor rest (world (health_monitor_tick cm)) else cm)"

definition is_healthy :: "communication_manager \<Rightarrow> bridge_name \<Rightarrow> bool" where
  \<comment> \<open>\<^verbatim>\<open>isHealthy()\<close> of the named bridge\<close>
  "is_healthy cm b =
     (case b of ZMQ \<Rightarrow> zmq_is_healthy (the_zmq_bridge cm)
              | WebSocket \<Rightarrow> ws_is_healthy (the_websocket_bridge cm))"

fun other_bridge :: "bridge_name \<Rightarrow> bridge_name" where
  "other_bridge ZMQ = WebSocket"
| "other_bridge WebSocket = ZMQ"

section \<open>Agent (ai\_orchestrator.py)\<close>

text \<open>
  A raised exception is a value carrying its message (\<^verbatim>\<open>str(e)\<close>); a call that may
  raise returns \<open>exn + 'a\<close>.
\<close>

datatype exn = Exception string

fun str :: "exn \<Rightarrow> string" where
  "str (Exception msg) = msg"

type_synonym candle = "(string \<times> real) list"
type_synonym news_item = "(string \<times> real) list"
type_synonym features = "real list"

record data =
  data_symbol :: string
  market_data :: "candle list"
  news_data :: "news_item list"

text \<open>
  The model handle is opaque: all an agent does with it is call its \<^verbatim>\<open>predict\<close>, so
  the handle is that function, from the feature vector to a raw output of type \<open>'p\<close>, or
  an exception.
\<close>

record 'p agent =
  name :: string
  model_path :: string
  version :: string
  performance_score :: real
  model :: "(features \<Rightarrow> exn + 'p) option"
  last_updated :: datetime

definition Agent :: "datetime \<Rightarrow> string \<Rightarrow> string \<Rightarrow> string \<Rightarrow> real \<Rightarrow> 'p agent" where
  \<comment> \<open>the constructor, at clock reading \<open>now\<close>\<close>
  "Agent now nm path ver score =
     \<lparr>name = nm, model_path = path, version = ver, performance_score = score,
      model = None, last_updated = now\<rparr>"

text \<open>The decision dictionary an agent returns (its metadata entry is not modelled).\<close>

record decision =
  d_agent :: string
  d_action :: string
  d_confidence :: real
  d_reason :: string

text \<open>
  What \<^verbatim>\<open>predict\<close> takes from the dictionary of \<^verbatim>\<open>_postprocess_prediction\<close>: the
  action, the confidence after \<^verbatim>\<open>float(...)\<close>, and the reason.
\<close>

record postprocessed =
  p_action :: string
  p_confidence :: real
  p_reason :: string

text \<open>
  The collaborators of an agent, as capabilities: the model loader, the preprocessing
  selected by the agent's name, the postprocessing of the raw output (with the conversion
  of the confidence to a float), and \<^verbatim>\<open>str\<close> of a float. Each of the first three may
  raise.
\<close>

record 'p runtime =
  ModelLoader_load_model :: "string \<Rightarrow> exn + (features \<Rightarrow> exn + 'p)"
  preprocess_data :: "string \<Rightarrow> data \<Rightarrow> exn + features"
  postprocess_prediction :: "'p \<Rightarrow> exn + postprocessed"
  float_str :: "real \<Rightarrow> string"

definition load_model :: "'p runtime \<Rightarrow> 'p agent \<Rightarrow> exn + 'p agent" where
  \<comment> \<open>the exception of the loader is logged and raised again\<close>
  "load_model rt a =
     (case ModelLoader_load_model rt (model_path a) of
        Inl e \<Rightarrow> Inl e
      | Inr m \<Rightarrow> Inr (a\<lparr>model := Some m\<rparr>))"

definition predict_body :: "'p runtime \<Rightarrow> 'p agent \<Rightarrow> data \<Rightarrow> exn + decision" where
  \<comment> \<open>the body of the \<^verbatim>\<open>try\<close> block of \<^verbatim>\<open>predict\<close>\<close>
  "predict_body rt a dat =
     (case preprocess_data rt (name a) dat of
        Inl e \<Rightarrow> Inl e
      | Inr processed_data \<Rightarrow>
          (case model a of
             None \<Rightarrow> Inl (Exception ''NoneType object has no attribute predict'')
           | Some m \<Rightarrow>
               (case m processed_data of
                  Inl e \<Rightarrow> Inl e
                | Inr prediction \<Rightarrow>
                    (case postprocess_prediction rt prediction of
                       Inl e \<Rightarrow> Inl e
                     | Inr result \<Rightarrow>
                         Inr \<lparr>d_agent = name a, d_action = p_action result,
                              d_confidence = p_confidence result,
                              d_reason = p_reason result\<rparr>))))"

text \<open>
  \<open>predict\<close> returns what the caller gets (\<open>Inl\<close>: an exception that left the call)
  and the agent after the call (its model may have been loaded).
\<close>

definition predict :: "'p runtime \<Rightarrow> 'p agent \<Rightarrow> data \<Rightarrow> (exn + decision) \<times> 'p agent" where
  "predict rt a dat =
     (case (if model a = None then load_model rt a else Inr a) of
        Inl e \<Rightarrow> (Inl e, a)
      | Inr a' \<Rightarrow>
          (case predict_body rt a' dat of
             Inr d \<Rightarrow> (Inr d, a')
           | Inl e \<Rightarrow>
               (Inr \<lparr>d_agent = name a', d_action = ''HOLD'', d_confidence = 0,
                     d_reason = ''Error: '' @ str e\<rparr>, a')))"

section \<open>Persistence\<close>

text \<open>
  The database is a collaborator: its state has some type \<open>'db\<close>, a statement or a commit
  gives the state after it and the exception it raised, if any, and the query of the
  scoring pass returns rows or raises.
\<close>

record performance_row =
  row_agent_name :: string
  row_win_rate :: "real option"
  row_avg_pnl :: "real option"
  row_trade_count :: "nat option"

datatype statement =
    UpdatePerformanceScore real string
  | DeactivateCurrent string
  | ActivateBackup string string
  | InsertPerformance datetime string string real string

record 'db persistence =
  execute :: "statement \<Rightarrow> 'db \<Rightarrow> exn option \<times> 'db"
  commit :: "'db \<Rightarrow> exn option \<times> 'db"
  select_performance :: "'db \<Rightarrow> exn + performance_row list"

section \<open>Orchestrator (ai\_orchestrator.py)\<close>

text \<open>
  \<open>active_agents\<close> is a Python dictionary: an association list in insertion order, read
  with \<open>map_of\<close> and written with \<open>AList.update\<close> (an existing key keeps its place, a
  new one goes to the end).
\<close>

record ('p, 'db) orchestrator =
  db_conn :: 'db
  active_agents :: "(string \<times> 'p agent) list"
  signal_validator :: signal_validator
  running :: bool

subsection \<open>Weighted vote\<close>

record vote_state =
  votes :: "(string \<times> real) list"
  total_weight :: real
  reasons :: "string list"
  confidences :: "real list"

definition initial_vote_state :: vote_state where
  "initial_vote_state =
     \<lparr>votes = [(''BUY'', 0), (''SELL'', 0), (''HOLD'', 0)], total_weight = 0,
      reasons = [], confidences = []\<rparr>"

text \<open>
  The loop over the agent results; an action that is no key of \<open>votes\<close> raises
  KeyError, whose message is the key in quotes.
\<close>

fun vote_loop ::
  "(string \<times> 'p agent) list \<Rightarrow> decision list \<Rightarrow> vote_state \<Rightarrow> exn + vote_state" where
  "vote_loop agents [] acc = Inr acc"
| "vote_loop agents (result # rest) acc =
     (case map_of agents (d_agent result) of
        None \<Rightarrow> vote_loop agents rest acc
      | Some agent \<Rightarrow>
          (let weight = performance_score agent;
               action = d_action result;
               confidence = d_confidence result
           in case map_of (votes acc) action of
                None \<Rightarrow> Inl (Exception ([CHR 0x27] @ action @ [CHR 0x27]))
              | Some v \<Rightarrow>
                  vote_loop agents rest
                    \<lparr>votes = AList.update action (v + weight * confidence) (votes acc),
                     total_weight = total_weight acc + weight,
                     reasons = reasons acc @ [d_agent result @ '': '' @ d_reason result],
                     confidences = confidences acc @ [confidence]\<rparr>))"

fun max_by_value :: "string \<times> real \<Rightarrow> (string \<times> real) list \<Rightarrow> string \<times> real" where
  \<comment> \<open>\<^verbatim>\<open>max(votes, key=votes.get)\<close>: the first entry with the greatest value\<close>
  "max_by_value best [] = best"
| "max_by_value best (kv # rest) = max_by_value (if snd kv > snd best then kv else best) rest"

fun join :: "string \<Rightarrow> string list \<Rightarrow> string" where
  "join sep [] = []"
| "join sep [x] = x"
| "join sep (x # y # rest) = x @ sep @ join sep (y # rest)"

definition mean :: "real list \<Rightarrow> real" where
  "mean xs = sum_list xs / real (length xs)"

definition weighted_vote :: "(string \<times> 'p agent) list \<Rightarrow> decision list \<Rightarrow> exn + signal" where
  "weighted_vote agents agent_results =
     (case vote_loop agents agent_results initial_vote_state of
        Inl e \<Rightarrow> Inl e
      | Inr acc \<Rightarrow>
          (let normalized =
                 (if total_weight acc > 0
                  then map (\<lambda>(action, v). (action, v / total_weight acc)) (votes acc)
                  else votes acc)
           in case normalized of
                [] \<Rightarrow> Inl (Exception ''max() arg is an empty sequence'')
              | kv # rest \<Rightarrow>
                  Inr \<lparr>sig_symbol = None,
                       sig_action = fst (max_by_value kv rest),
                       sig_confidence = (if confidences acc \<noteq> [] then mean (confidences acc) else 0),
                       sig_reason = join '' | '' (reasons acc),
                       sig_votes = normalized\<rparr>))"

subsection \<open>Audit log\<close>

record signal_data =
  sd_symbol :: string
  sd_timestamp :: datetime
  sd_ensemble_action :: string
  sd_ensemble_confidence :: real
  sd_agent_signals :: "decision list"
  sd_votes :: "(string \<times> real) list"

definition json_dumps :: "signal_data \<Rightarrow> exn + string" where
  \<comment> \<open>\<^verbatim>\<open>json.dumps\<close> with the default encoder raises TypeError on a \<^verbatim>\<open>datetime\<close>, and
      the \<^verbatim>\<open>timestamp\<close> entry of the dictionary is one\<close>
  "json_dumps sd = Inl (Exception ''Object of type datetime is not JSON serializable'')"

definition log_signal ::
  "'db persistence \<Rightarrow> datetime \<Rightarrow> 'db \<Rightarrow> string \<Rightarrow> signal \<Rightarrow> decision list \<Rightarrow> 'db" where
  \<comment> \<open>every exception is caught and logged\<close>
  "log_signal ps now db symbol ensemble_result agent_results =
     (let sd = \<lparr>sd_symbol = symbol, sd_timestamp = now,
                 sd_ensemble_action = sig_action ensemble_result,
                 sd_ensemble_confidence = sig_confidence ensemble_result,
                 sd_agent_signals = agent_results,
                 sd_votes = sig_votes ensemble_result\<rparr>
      in case json_dumps sd of
           Inl e \<Rightarrow> db
         | Inr text \<Rightarrow>
             (case execute ps (InsertPerformance (sd_timestamp sd) ''ensemble''
                                 ''signal_confidence'' (sd_ensemble_confidence sd) text) db of
                (Some e, db') \<Rightarrow> db'
              | (None, db') \<Rightarrow> snd (commit ps db')))"

subsection \<open>Ensemble signal\<close>

definition valid_results_of :: "(exn + decision) list \<Rightarrow> decision list" where
  \<comment> \<open>the results that are dictionaries with an action: not the exceptions gathered\<close>
  "valid_results_of results = concat (map (\<lambda>r. case r of Inl e \<Rightarrow> [] | Inr d \<Rightarrow> [d]) results)"

definition hold_signal :: "string \<Rightarrow> signal" where
  "hold_signal why =
     \<lparr>sig_symbol = None, sig_action = ''HOLD'', sig_confidence = 0, sig_reason = why,
      sig_votes = [(''BUY'', 0), (''SELL'', 0), (''HOLD'', 0)]\<rparr>"

definition confidence_gate :: "settings \<Rightarrow> 'p runtime \<Rightarrow> signal \<Rightarrow> signal" where
  "confidence_gate st rt ensemble_result =
     (if sig_confidence ensemble_result < confidence_threshold st
      then ensemble_result
             \<lparr>sig_action := ''HOLD'',
              sig_reason := sig_reason ensemble_result @ '' | Confidence below threshold (''
                              @ float_str rt (confidence_threshold st) @ '')''\<rparr>
      else ensemble_result)"

definition request_data :: "string \<Rightarrow> candle list \<Rightarrow> news_item list option \<Rightarrow> data" where
  \<comment> \<open>the dictionary prepared for the agents; \<^verbatim>\<open>news_data or []\<close>\<close>
  "request_data symbol mkt news =
     \<lparr>data_symbol = symbol, market_data = mkt,
      news_data = (case news of None \<Rightarrow> [] | Some n \<Rightarrow> n)\<rparr>"

definition run_agents ::
  "'p runtime \<Rightarrow> ('p, 'db) orchestrator \<Rightarrow> data \<Rightarrow>
     (exn + decision) list \<times> ('p, 'db) orchestrator" where
  \<comment> \<open>\<^verbatim>\<open>asyncio.gather(..., return_exceptions=True)\<close> over \<open>predict\<close> of every active agent:
      the results in the order of the agents, and the agents as the calls left them\<close>
  "run_agents rt orch dat =
     (let outcomes = map (\<lambda>(k, agent). (k, predict rt agent dat)) (active_agents orch)
      in (map (\<lambda>(k, r, agent). r) outcomes,
          orch\<lparr>active_agents := map (\<lambda>(k, r, agent). (k, agent)) outcomes\<rparr>))"

text \<open>
  \<open>get_ensemble_signal\<close> returns the signal, or the exception that left the call, and
  the orchestrator after the call: the agents as \<open>predict\<close> left them, the validator and
  the database.
\<close>

definition get_ensemble_signal ::
  "settings \<Rightarrow> 'p runtime \<Rightarrow> 'db persistence \<Rightarrow> datetime \<Rightarrow> ('p, 'db) orchestrator \<Rightarrow>
     string \<Rightarrow> candle list \<Rightarrow> news_item list option \<Rightarrow> (exn + signal) \<times> ('p, 'db) orchestrator" where
  "get_ensemble_signal st rt ps now orch symbol mkt news =
     (if active_agents orch = [] then (Inr (hold_signal ''No active agents available''), orch)
      else
        (let (results, orch1) = run_agents rt orch (request_data symbol mkt news);
             valid_results = valid_results_of results
         in if valid_results = []
            then (Inr (hold_signal ''No valid agent predictions''), orch1)
            else
              (case weighted_vote (active_agents orch1) valid_results of
                 Inl e \<Rightarrow> (Inl e, orch1)
               | Inr voted \<Rightarrow>
                   (let gated = confidence_gate st rt voted;
                        (ok, v) = validate_signal st now (signal_validator orch1) symbol gated;
                        ensemble_result =
                          (if \<not> ok
                           then gated\<lparr>sig_action := ''HOLD'',
                                      sig_reason := sig_reason gated @ '' | Failed signal validation''\<rparr>
                           else gated);
                        db = log_signal ps now (db_conn orch1) symbol ensemble_result valid_results
                    in (Inr ensemble_result, orch1\<lparr>signal_validator := v, db_conn := db\<rparr>)))))"

subsection \<open>Performance scoring\<close>

definition or_zero :: "'a::zero option \<Rightarrow> 'a" where
  \<comment> \<open>\<^verbatim>\<open>value or 0\<close> for a column that may be NULL\<close>
  "or_zero x = (case x of None \<Rightarrow> 0 | Some v \<Rightarrow> v)"

definition composite_score :: "real \<Rightarrow> real \<Rightarrow> real" where
  "composite_score win_rate avg_pnl =
     (let performance_score = (win_rate * 0.7) + (min (avg_pnl / 100) 1.0 * 0.3)
      in max 0.0 (min 1.0 performance_score))"

definition set_performance_score ::
  "string \<Rightarrow> real \<Rightarrow> (string \<times> 'p agent) list \<Rightarrow> (string \<times> 'p agent) list" where
  \<comment> \<open>the update of the in-memory agent, when the name is a key of the live map\<close>
  "set_performance_score agent_name score agents =
     (if agent_name \<in> set (map fst agents)
      then AList.map_entry agent_name (\<lambda>a. a\<lparr>performance_score := score\<rparr>) agents
      else agents)"

text \<open>
  The loop over the rows of the query. It stops at the first statement that raises and
  returns that exception with the database and the agents as they are then.
\<close>

fun score_rows ::
  "'db persistence \<Rightarrow> performance_row list \<Rightarrow> 'db \<Rightarrow> (string \<times> 'p agent) list \<Rightarrow>
     exn option \<times> 'db \<times> (string \<times> 'p agent) list" where
  "score_rows ps [] db agents = (None, db, agents)"
| "score_rows ps (row # rest) db agents =
     (if or_zero (row_trade_count row) \<ge> 10 then
        (let performance_score =
               composite_score (or_zero (row_win_rate row)) (or_zero (row_avg_pnl row));
             executed = execute ps (UpdatePerformanceScore performance_score (row_agent_name row)) db
         in if fst executed \<noteq> None then (fst executed, snd executed, agents)
            else score_rows ps rest (snd executed)
                   (set_performance_score (row_agent_name row) performance_score agents))
      else score_rows ps rest db agents)"

definition update_performance_scores ::
  "'db persistence \<Rightarrow> ('p, 'db) orchestrator \<Rightarrow> ('p, 'db) orchestrator" where
  \<comment> \<open>every exception is caught and logged\<close>
  "update_performance_scores ps orch =
     (case select_performance ps (db_conn orch) of
        Inl e \<Rightarrow> orch
      | Inr performance_data \<Rightarrow>
          (case score_rows ps performance_data (db_conn orch) (active_agents orch) of
             (Some e, db, agents) \<Rightarrow> orch\<lparr>db_conn := db, active_agents := agents\<rparr>
           | (None, db, agents) \<Rightarrow>
               orch\<lparr>db_conn := snd (commit ps db), active_agents := agents\<rparr>))"

subsection \<open>Hot-swap\<close>

record backup_model =
  b_model_path :: string
  b_version :: string
  b_performance_score :: real

text \<open>
  \<open>swap_model\<close> returns the states the orchestrator goes through, the first being the
  one before the call and the last the one after it: one state after each statement, after
  the commit, and after the assignment to the live map. An exception anywhere ends the
  call (it is caught and logged), so the list ends there.
\<close>

definition swap_model ::
  "'p runtime \<Rightarrow> 'db persistence \<Rightarrow> datetime \<Rightarrow> ('p, 'db) orchestrator \<Rightarrow> string \<Rightarrow>
     backup_model \<Rightarrow> ('p, 'db) orchestrator list" where
  "swap_model rt ps now orch agent_name backup =
     (case execute ps (DeactivateCurrent agent_name) (db_conn orch) of
        (Some e, db1) \<Rightarrow> [orch, orch\<lparr>db_conn := db1\<rparr>]
      | (None, db1) \<Rightarrow>
          (case execute ps (ActivateBackup agent_name (b_version backup)) db1 of
             (Some e, db2) \<Rightarrow> [orch, orch\<lparr>db_conn := db1\<rparr>, orch\<lparr>db_conn := db2\<rparr>]
           | (None, db2) \<Rightarrow>
               (let db3 = snd (commit ps db2);
                    before_load = [orch, orch\<lparr>db_conn := db1\<rparr>, orch\<lparr>db_conn := db2\<rparr>,
                                   orch\<lparr>db_conn := db3\<rparr>]
                in case fst (commit ps db2) of
                     Some e \<Rightarrow> before_load
                   | None \<Rightarrow>
                       (let new_agent = Agent now agent_name (b_model_path backup)
                                          (b_version backup) (b_performance_score backup)
                        in case load_model rt new_agent of
                             Inl e \<Rightarrow> before_load
                           | Inr loaded \<Rightarrow>
                               before_load @
                                 [orch\<lparr>db_conn := db3,
                                       active_agents :=
                                         AList.update agent_name loaded (active_agents orch)\<rparr>]))))"

section \<open>Vocabulary of the properties\<close>

text \<open>
  The weight the vote gives a decision: the performance score of its agent in the live
  map, and nothing when the agent is not there (the loop skips such a decision).
\<close>

definition weight_of :: "(string \<times> 'p agent) list \<Rightarrow> decision \<Rightarrow> real" where
  "weight_of agents d =
     (case map_of agents (d_agent d) of None \<Rightarrow> 0 | Some a \<Rightarrow> performance_score a)"

definition weighted_sum :: "(string \<times> 'p agent) list \<Rightarrow> decision list \<Rightarrow> real" where
  "weighted_sum agents ds = sum_list (map (\<lambda>d. weight_of agents d * d_confidence d) ds)"

definition total_of :: "(string \<times> 'p agent) list \<Rightarrow> decision list \<Rightarrow> real" where
  "total_of agents ds = sum_list (map (weight_of agents) ds)"

definition votes_sum :: "signal \<Rightarrow> real" where
  "votes_sum sg = sum_list (map snd (sig_votes sg))"

text \<open>The first exception among the three stages of a prediction with model \<open>m\<close>, if any.\<close>

definition first_failure ::
  "'p runtime \<Rightarrow> string \<Rightarrow> (features \<Rightarrow> exn + 'p) \<Rightarrow> data \<Rightarrow> exn option" where
  "first_failure rt nm m dat =
     (case preprocess_data rt nm dat of
        Inl e \<Rightarrow> Some e
      | Inr processed_data \<Rightarrow>
          (case m processed_data of
             Inl e \<Rightarrow> Some e
           | Inr prediction \<Rightarrow>
               (case postprocess_prediction rt prediction of
                  Inl e \<Rightarrow> Some e
                | Inr result \<Rightarrow> None)))"

definition error_decision :: "string \<Rightarrow> exn \<Rightarrow> decision" where
  "error_decision nm e =
     \<lparr>d_agent = nm, d_action = ''HOLD'', d_confidence = 0, d_reason = ''Error: '' @ str e\<rparr>"

text \<open>The in-memory effect of handling all of \<open>rows\<close>, in order.\<close>

fun apply_scores ::
  "performance_row list \<Rightarrow> (string \<times> 'p agent) list \<Rightarrow> (string \<times> 'p agent) list" where
  "apply_scores [] agents = agents"
| "apply_scores (row # rest) agents =
     apply_scores rest
       (if or_zero (row_trade_count row) \<ge> 10
        then set_performance_score (row_agent_name row)
               (composite_score (or_zero (row_win_rate row)) (or_zero (row_avg_pnl row))) agents
        else agents)"

text \<open>
  How many rows a scoring pass gets through: the rows before the first one whose UPDATE
  raises, all of them when none does.
\<close>

fun rows_handled :: "'db persistence \<Rightarrow> performance_row list \<Rightarrow> 'db \<Rightarrow> nat" where
  "rows_handled ps [] db = 0"
| "rows_handled ps (row # rest) db =
     (if or_zero (row_trade_count row) \<ge> 10 then
        (let executed =
               execute ps
                 (UpdatePerformanceScore
                    (composite_score (or_zero (row_win_rate row)) (or_zero (row_avg_pnl row)))
                    (row_agent_name row)) db
         in if fst executed \<noteq> None then 0 else Suc (rows_handled ps rest (snd executed)))
      else Suc (rows_handled ps rest db))"

definition scores :: "('p, 'db) orchestrator \<Rightarrow> (string \<times> real) list" where
  "scores orch = map (\<lambda>(k, a). (k, performance_score a)) (active_agents orch)"

text \<open>
  What a state of a hot-swap may serve: the live map of before the call, or that map with
  the loaded candidate under the agent's name.
\<close>

definition swapped_or_same ::
  "'p runtime \<Rightarrow> datetime \<Rightarrow> ('p, 'db) orchestrator \<Rightarrow> string \<Rightarrow> backup_model \<Rightarrow>
     ('p, 'db) orchestrator \<Rightarrow> bool" where
  "swapped_or_same rt now orch agent_name backup s =
     (active_agents s = active_agents orch \<or>
      (case load_model rt (Agent now agent_name (b_model_path backup) (b_version backup)
                             (b_performance_score backup)) of
         Inl e \<Rightarrow> False
       | Inr loaded \<Rightarrow> active_agents s = AList.update agent_name loaded (active_agents orch)))"

text \<open>A caller asking for one signal after another, for one symbol, at the given times.\<close>

fun successive_calls ::
  "settings \<Rightarrow> 'p runtime \<Rightarrow> 'db persistence \<Rightarrow> string \<Rightarrow> datetime list \<Rightarrow>
     ('p, 'db) orchestrator \<Rightarrow> (exn + signal) list" where
  "successive_calls st rt ps symbol [] orch = []"
| "successive_calls st rt ps symbol (now # later) orch =
     fst (get_ensemble_signal st rt ps now orch symbol [] None)
       # successive_calls st rt ps symbol later
           (snd (get_ensemble_signal st rt ps now orch symbol [] None))"

section \<open>Scenarios\<close>

text \<open>
  Concrete collaborators and states. A raw model output is a pair of an action and a
  confidence here; the database state counts the statements executed.
\<close>

definition default_settings :: settings where
  "default_settings = \<lparr>confidence_threshold = 0.75\<rparr>"

definition constant_model :: "string \<Rightarrow> real \<Rightarrow> features \<Rightarrow> exn + string \<times> real" where
  "constant_model act c f = Inr (act, c)"

definition broken_model :: "features \<Rightarrow> exn + string \<times> real" where
  "broken_model f = Inl (Exception ''Model error'')"

definition scenario_postprocess :: "string \<times> real \<Rightarrow> exn + postprocessed" where
  "scenario_postprocess p =
     Inr \<lparr>p_action = fst p, p_confidence = snd p, p_reason = ''Model prediction''\<rparr>"

definition offline_runtime :: "(string \<times> real) runtime" where
  \<comment> \<open>no model file can be loaded\<close>
  "offline_runtime =
     \<lparr>ModelLoader_load_model = (\<lambda>path. Inl (Exception ''Model file not found'')),
      preprocess_data = (\<lambda>nm dat. Inr []),
      postprocess_prediction = scenario_postprocess,
      float_str = (\<lambda>x. ''0.75'')\<rparr>"

definition void_persistence :: "nat persistence" where
  \<comment> \<open>every statement succeeds; no trade history\<close>
  "void_persistence =
     \<lparr>execute = (\<lambda>stmt n. (None, Suc n)), commit = (\<lambda>n. (None, n)),
      select_performance = (\<lambda>n. Inr [])\<rparr>"

definition scenario_rows :: "performance_row list" where
  "scenario_rows =
     [\<lparr>row_agent_name = ''technical'', row_win_rate = Some 0.65, row_avg_pnl = Some 15.5,
       row_trade_count = Some 20\<rparr>,
      \<lparr>row_agent_name = ''sentiment'', row_win_rate = Some 0.4, row_avg_pnl = Some (- 5),
       row_trade_count = Some 12\<rparr>]"

definition flaky_persistence :: "nat persistence" where
  \<comment> \<open>the second statement raises\<close>
  "flaky_persistence =
     \<lparr>execute = (\<lambda>stmt n. if n = 1 then (Some (Exception ''connection lost''), n)
                            else (None, Suc n)),
      commit = (\<lambda>n. (None, n)),
      select_performance = (\<lambda>n. Inr scenario_rows)\<rparr>"

definition down_persistence :: "nat persistence" where
  \<comment> \<open>everything raises\<close>
  "down_persistence =
     \<lparr>execute = (\<lambda>stmt n. (Some (Exception ''connection lost''), n)),
      commit = (\<lambda>n. (Some (Exception ''connection lost''), n)),
      select_performance = (\<lambda>n. Inl (Exception ''connection lost''))\<rparr>"

definition loaded_agent :: "string \<Rightarrow> real \<Rightarrow> string \<Rightarrow> real \<Rightarrow> (string \<times> real) agent" where
  \<comment> \<open>an agent whose model always answers the given action and confidence\<close>
  "loaded_agent nm score act c =
     \<lparr>name = nm, model_path = ''/models/'' @ nm @ ''.pkl'', version = ''1.0.0'',
      performance_score = score, model = Some (constant_model act c), last_updated = 0\<rparr>"

definition orchestrator_of ::
  "(string \<times> real) agent list \<Rightarrow> (string \<times> real, nat) orchestrator" where
  "orchestrator_of agents =
     \<lparr>db_conn = 0, active_agents = map (\<lambda>a. (name a, a)) agents,
      signal_validator = new_signal_validator, running = True\<rparr>"

definition idle_orchestrator :: "(string \<times> real, nat) orchestrator" where
  "idle_orchestrator = orchestrator_of []"

definition timid_orchestrator :: "(string \<times> real, nat) orchestrator" where
  "timid_orchestrator = orchestrator_of [loaded_agent ''technical'' 0.8 ''BUY'' 0.3]"

definition confident_orchestrator :: "(string \<times> real, nat) orchestrator" where
  "confident_orchestrator = orchestrator_of [loaded_agent ''technical'' 0.8 ''BUY'' 0.9]"

definition two_agent_orchestrator :: "(string \<times> real, nat) orchestrator" where
  "two_agent_orchestrator =
     orchestrator_of [loaded_agent ''technical'' 0.5 ''BUY'' 0.9,
                      loaded_agent ''sentiment'' 0.5 ''SELL'' 0.6]"

definition struggling_orchestrator :: "(string \<times> real, nat) orchestrator" where
  "struggling_orchestrator = orchestrator_of [loaded_agent ''technical'' 0.3 ''BUY'' 0.9]"

definition backup_v2 :: backup_model where
  "backup_v2 =
     \<lparr>b_model_path = ''/models/technical_v2.pkl'', b_version = ''2.0.0'',
      b_performance_score = 0.65\<rparr>"

definition scenario_A_agents :: "(string \<times> (string \<times> real) agent) list" where
  "scenario_A_agents =
     [(''A'', loaded_agent ''A'' 0.8 ''BUY'' 0.9), (''B'', loaded_agent ''B'' 0.5 ''SELL'' 0.6)]"

definition scenario_A_results :: "decision list" where
  "scenario_A_results =
     [\<lparr>d_agent = ''A'', d_action = ''BUY'', d_confidence = 0.9, d_reason = ''Technical bullish''\<rparr>,
      \<lparr>d_agent = ''B'', d_action = ''SELL'', d_confidence = 0.6, d_reason = ''Sentiment bearish''\<rparr>]"

definition error_agent :: "(string \<times> real) agent" where
  "error_agent =
     \<lparr>name = ''error_agent'', model_path = ''/models/error.pkl'', version = ''1.0.0'',
      performance_score = 0.5, model = Some broken_model, last_updated = 0\<rparr>"

definition unloaded_agent :: "(string \<times> real) agent" where
  "unloaded_agent = Agent 0 ''technical'' ''/models/technical.pkl'' ''1.0.0'' 0.6"

definition timid_signal :: signal where
  "timid_signal =
     \<lparr>sig_symbol = None, sig_action = ''HOLD'', sig_confidence = 3 / 10,
      sig_reason = ''technical: Model prediction | Confidence below threshold (0.75) | Failed signal validation'',
      sig_votes = [(''BUY'', 3 / 10), (''SELL'', 0), (''HOLD'', 0)]\<rparr>"

definition confident_signal :: signal where
  "confident_signal =
     \<lparr>sig_symbol = None, sig_action = ''BUY'', sig_confidence = 9 / 10,
      sig_reason = ''technical: Model prediction'',
      sig_votes = [(''BUY'', 9 / 10), (''SELL'', 0), (''HOLD'', 0)]\<rparr>"

section \<open>Properties\<close>

subsection \<open>Market-condition gate\<close>

lemma hour_range: "0 \<le> hour t \<and> hour t \<le> 23"
  unfolding hour_def by simp

text \<open>
  C10. For every symbol, every signal and every reading of the clock, the validator's
  market-condition check returns True: the hour of a datetime always lies between 0 and
  23, so the time-window gate never rejects a signal.
\<close>

theorem market_conditions_always_pass:
  "validate_market_conditions now symbol sg = True"
  using hour_range [of now] by (simp add: validate_market_conditions_def Let_def)

subsection \<open>Health monitor\<close>

text \<open>
  C9. At a tick of the health monitor, the active-bridge flag becomes the other bridge
  exactly when the active bridge is unhealthy and the other one is healthy; in every other
  combination of the two health checks the tick leaves the flag as it was. A tick touches
  nothing but the flag.
\<close>

theorem health_monitor_tick_failover:
  "active_bridge (health_monitor_tick cm) =
     (if \<not> is_healthy cm (active_bridge cm) \<and> is_healthy cm (other_bridge (active_bridge cm))
      then other_bridge (active_bridge cm) else active_bridge cm)"
  by (cases "active_bridge cm") (simp_all add: health_monitor_tick_def is_healthy_def Let_def)

subsection \<open>No active agents\<close>

text \<open>
  C4, as the code has it. Whenever the set of active agents is empty,
  \<open>get_ensemble_signal\<close> returns HOLD with confidence 0, all three votes zero and the
  reason "No active agents available", and leaves the orchestrator as it was.
\<close>

theorem no_active_agents_signal:
  "active_agents orch = [] \<Longrightarrow>
     get_ensemble_signal st rt ps now orch symbol mkt news =
       (Inr \<lparr>sig_symbol = None, sig_action = ''HOLD'', sig_confidence = 0,
             sig_reason = ''No active agents available'',
             sig_votes = [(''BUY'', 0), (''SELL'', 0), (''HOLD'', 0)]\<rparr>, orch)"
  by (simp add: get_ensemble_signal_def hold_signal_def)

theorem no_active_agents_signal_witness:
  "active_agents idle_orchestrator = [] \<and>
   get_ensemble_signal default_settings offline_runtime void_persistence 0 idle_orchestrator
       ''EURUSD'' [] None =
     (Inr \<lparr>sig_symbol = None, sig_action = ''HOLD'', sig_confidence = 0,
           sig_reason = ''No active agents available'',
           sig_votes = [(''BUY'', 0), (''SELL'', 0), (''HOLD'', 0)]\<rparr>, idle_orchestrator)"
proof -
  have h: "active_agents idle_orchestrator = []"
    by (simp add: idle_orchestrator_def orchestrator_of_def)
  show ?thesis
    using h no_active_agents_signal [OF h, of default_settings offline_runtime void_persistence 0
        "''EURUSD''" "[]" None]
    by simp
qed

text \<open>
  C4 as stated fails: with no active agent the reason returned is not the string
  "No active agents".
\<close>

theorem no_active_agents_reason_differs:
  "fst (get_ensemble_signal default_settings offline_runtime void_persistence 0
          idle_orchestrator ''EURUSD'' [] None)
     \<noteq> Inr \<lparr>sig_symbol = None, sig_action = ''HOLD'', sig_confidence = 0,
             sig_reason = ''No active agents'',
             sig_votes = [(''BUY'', 0), (''SELL'', 0), (''HOLD'', 0)]\<rparr>"
  by (simp add: get_ensemble_signal_def idle_orchestrator_def orchestrator_of_def hold_signal_def)

subsection \<open>Failures inside a prediction\<close>

text \<open>
  C5, as the code has it. When the agent's model is loaded, or is not loaded yet and the
  loader returns it, \<open>predict\<close> hands its caller a decision and no exception; and when
  preprocessing, the model's inference or postprocessing raises \<open>e\<close>, that decision is HOLD
  with confidence 0 and the reason "Error: " followed by the message of \<open>e\<close>.
\<close>

theorem predict_contains_failures:
  assumes "model a = Some m \<or> (model a = None \<and> ModelLoader_load_model rt (model_path a) = Inr m)"
  shows "(\<exists>d. fst (predict rt a dat) = Inr d) \<and>
         (\<forall>e. first_failure rt (name a) m dat = Some e \<longrightarrow>
              fst (predict rt a dat) = Inr (error_decision (name a) e))"
  using assms
  by (auto simp: predict_def load_model_def predict_body_def first_failure_def error_decision_def
           split: sum.splits option.splits)

theorem predict_contains_failures_witness:
  "model error_agent = Some broken_model \<and>
   first_failure offline_runtime (name error_agent) broken_model (request_data ''EURUSD'' [] None)
     = Some (Exception ''Model error'') \<and>
   fst (predict offline_runtime error_agent (request_data ''EURUSD'' [] None)) =
     Inr \<lparr>d_agent = ''error_agent'', d_action = ''HOLD'', d_confidence = 0,
          d_reason = ''Error: Model error''\<rparr>"
proof -
  have h: "model error_agent = Some broken_model"
    by (simp add: error_agent_def)
  have f: "first_failure offline_runtime (name error_agent) broken_model
             (request_data ''EURUSD'' [] None) = Some (Exception ''Model error'')"
    by (simp add: first_failure_def offline_runtime_def broken_model_def)
  from predict_contains_failures [OF disjI1 [OF h], of offline_runtime "request_data ''EURUSD'' [] None"]
  have "fst (predict offline_runtime error_agent (request_data ''EURUSD'' [] None)) =
          Inr (error_decision (name error_agent) (Exception ''Model error''))"
    using f by simp
  then show ?thesis using h f by (simp add: error_decision_def error_agent_def)
qed

text \<open>
  C5 as stated fails where it speaks of model loading: the call of \<open>load_model\<close> comes
  before the \<open>try\<close> block, so the exception of a model that cannot be loaded leaves
  \<open>predict\<close>.
\<close>

theorem predict_propagates_load_failure:
  "fst (predict offline_runtime unloaded_agent (request_data ''EURUSD'' [] None)) =
     Inl (Exception ''Model file not found'')"
  by (simp add: predict_def load_model_def unloaded_agent_def Agent_def offline_runtime_def)

subsection \<open>Hot-swap\<close>

lemma swap_model_all_states:
  "list_all (swapped_or_same rt now orch agent_name backup)
     (swap_model rt ps now orch agent_name backup)"
proof -
  let ?P = "swapped_or_same rt now orch agent_name backup"
  have same: "?P (orch\<lparr>db_conn := d\<rparr>)" for d
    by (simp add: swapped_or_same_def)
  have start: "?P orch"
    by (simp add: swapped_or_same_def)
  have swapped: "load_model rt (Agent now agent_name (b_model_path backup) (b_version backup)
                             (b_performance_score backup)) = Inr loaded \<Longrightarrow>
       ?P (orch\<lparr>db_conn := d, active_agents := AList.update agent_name loaded (active_agents orch)\<rparr>)"
    for loaded d
    by (simp add: swapped_or_same_def)
  show ?thesis
    unfolding swap_model_def Let_def
    by (simp add: same start swapped split: prod.splits option.splits sum.splits)
qed

text \<open>
  C6. Let \<open>s\<close> be any state the orchestrator goes through during a hot-swap, the states
  before and after it included. The live map of \<open>s\<close> is the one of before the swap, or
  that map with the loaded candidate under the agent's name: nothing in between. So a name
  that resolved to an agent before the swap resolves to an agent in \<open>s\<close>, and when
  loading the candidate fails the live map of \<open>s\<close> is the one of before the swap.
\<close>

theorem swap_model_keeps_serving:
  assumes "s \<in> set (swap_model rt ps now orch agent_name backup)"
  shows "(active_agents s = active_agents orch \<or>
          (\<exists>m. ModelLoader_load_model rt (b_model_path backup) = Inr m \<and>
               active_agents s =
                 AList.update agent_name
                   ((Agent now agent_name (b_model_path backup) (b_version backup)
                       (b_performance_score backup))\<lparr>model := Some m\<rparr>)
                   (active_agents orch)))
       \<and> (map_of (active_agents orch) agent_name \<noteq> None \<longrightarrow>
            map_of (active_agents s) agent_name \<noteq> None)
       \<and> (\<forall>e. ModelLoader_load_model rt (b_model_path backup) = Inl e \<longrightarrow>
            active_agents s = active_agents orch)"
proof -
  from assms swap_model_all_states [of rt now orch agent_name backup ps]
  have "swapped_or_same rt now orch agent_name backup s"
    by (simp add: list_all_iff)
  then have core: "active_agents s = active_agents orch \<or>
          (\<exists>m. ModelLoader_load_model rt (b_model_path backup) = Inr m \<and>
               active_agents s =
                 AList.update agent_name
                   ((Agent now agent_name (b_model_path backup) (b_version backup)
                       (b_performance_score backup))\<lparr>model := Some m\<rparr>)
                   (active_agents orch))"
    by (auto simp: swapped_or_same_def load_model_def Agent_def split: sum.splits)
  then show ?thesis
    by (auto simp: update_conv')
qed

theorem swap_model_keeps_serving_witness:
  "last (swap_model offline_runtime void_persistence 600000000 struggling_orchestrator
           ''technical'' backup_v2)
     \<in> set (swap_model offline_runtime void_persistence 600000000 struggling_orchestrator
              ''technical'' backup_v2)
   \<and> ModelLoader_load_model offline_runtime (b_model_path backup_v2)
       = Inl (Exception ''Model file not found'')
   \<and> map_of (active_agents struggling_orchestrator) ''technical'' \<noteq> None
   \<and> active_agents (last (swap_model offline_runtime void_persistence 600000000
                             struggling_orchestrator ''technical'' backup_v2))
       = active_agents struggling_orchestrator
   \<and> map_of (active_agents (last (swap_model offline_runtime void_persistence 600000000
                                      struggling_orchestrator ''technical'' backup_v2)))
        ''technical'' \<noteq> None"
proof -
  let ?trace = "swap_model offline_runtime void_persistence 600000000 struggling_orchestrator
                  ''technical'' backup_v2"
  have ne: "?trace \<noteq> []"
    by (simp add: swap_model_def Let_def split: prod.splits option.splits sum.splits)
  then have h: "last ?trace \<in> set ?trace" by simp
  have l: "ModelLoader_load_model offline_runtime (b_model_path backup_v2)
             = Inl (Exception ''Model file not found'')"
    by (simp add: offline_runtime_def)
  have r: "map_of (active_agents struggling_orchestrator) ''technical'' \<noteq> None"
    by (simp add: struggling_orchestrator_def orchestrator_of_def loaded_agent_def)
  note t = swap_model_keeps_serving [OF h]
  from t l have a: "active_agents (last ?trace) = active_agents struggling_orchestrator"
    by simp
  from t r have b: "map_of (active_agents (last ?trace)) ''technical'' \<noteq> None"
    by simp
  from h l r a b show ?thesis by (intro conjI)
qed

subsection \<open>Weighted vote\<close>

lemma vote_loop_sums:
  assumes "\<forall>d\<in>set rs. d_action d \<in> set (map fst (votes acc))"
  shows "\<exists>acc'. vote_loop agents rs acc = Inr acc' \<and> map fst (votes acc') = map fst (votes acc)
     \<and> (\<forall>a v. map_of (votes acc) a = Some v \<longrightarrow>
           map_of (votes acc') a =
             Some (v + weighted_sum agents (filter (\<lambda>d. d_action d = a) rs)))
     \<and> total_weight acc' = total_weight acc + total_of agents rs"
  using assms
proof (induction rs arbitrary: acc)
  case Nil
  then show ?case by (simp add: weighted_sum_def total_of_def)
next
  case (Cons r rs)
  show ?case
  proof (cases "map_of agents (d_agent r)")
    case None
    then have w0: "weight_of agents r = 0" by (simp add: weight_of_def)
    from Cons.prems have "\<forall>d\<in>set rs. d_action d \<in> set (map fst (votes acc))" by simp
    from Cons.IH [OF this] obtain acc' where
      "vote_loop agents rs acc = Inr acc'" "map fst (votes acc') = map fst (votes acc)"
      "\<forall>a v. map_of (votes acc) a = Some v \<longrightarrow>
           map_of (votes acc') a = Some (v + weighted_sum agents (filter (\<lambda>d. d_action d = a) rs))"
      "total_weight acc' = total_weight acc + total_of agents rs"
      by blast
    with None w0 show ?thesis
      by (auto simp: weighted_sum_def total_of_def)
  next
    case (Some ag)
    then have w: "weight_of agents r = performance_score ag" by (simp add: weight_of_def)
    from Cons.prems have "d_action r \<in> set (map fst (votes acc))" by simp
    then obtain v0 where v0: "map_of (votes acc) (d_action r) = Some v0"
      by (metis map_of_eq_None_iff not_Some_eq set_map)
    define acc1 where "acc1 =
       \<lparr>votes = AList.update (d_action r) (v0 + performance_score ag * d_confidence r) (votes acc),
        total_weight = total_weight acc + performance_score ag,
        reasons = reasons acc @ [d_agent r @ '': '' @ d_reason r],
        confidences = confidences acc @ [d_confidence r]\<rparr>"
    have step: "vote_loop agents (r # rs) acc = vote_loop agents rs acc1"
      using Some v0 by (simp add: acc1_def Let_def)
    have keys1: "map fst (votes acc1) = map fst (votes acc)"
      using \<open>d_action r \<in> set (map fst (votes acc))\<close> by (simp add: acc1_def update_keys)
    with Cons.prems have "\<forall>d\<in>set rs. d_action d \<in> set (map fst (votes acc1))" by simp
    from Cons.IH [OF this] obtain acc' where acc':
      "vote_loop agents rs acc1 = Inr acc'" "map fst (votes acc') = map fst (votes acc1)"
      "\<forall>a v. map_of (votes acc1) a = Some v \<longrightarrow>
           map_of (votes acc') a = Some (v + weighted_sum agents (filter (\<lambda>d. d_action d = a) rs))"
      "total_weight acc' = total_weight acc1 + total_of agents rs"
      by blast
    have m1: "map_of (votes acc1) a =
        (if a = d_action r then Some (v0 + performance_score ag * d_confidence r)
         else map_of (votes acc) a)" for a
      by (simp add: acc1_def update_conv')
    have "map_of (votes acc') a =
             Some (v + weighted_sum agents (filter (\<lambda>d. d_action d = a) (r # rs)))"
      if "map_of (votes acc) a = Some v" for a v
      using that acc'(3) [rule_format, of a] m1 [of a] v0 w
      by (auto simp: weighted_sum_def)
    moreover have "total_weight acc' = total_weight acc + total_of agents (r # rs)"
      using acc'(4) w by (simp add: acc1_def total_of_def)
    ultimately show ?thesis
      using step acc'(1,2) keys1 by simp
  qed
qed

lemma weighted_sum_split:
  assumes "\<forall>d\<in>set rs. d_action d = a \<or> d_action d = b \<or> d_action d = c"
      and "a \<noteq> b" "a \<noteq> c" "b \<noteq> c"
  shows "weighted_sum agents (filter (\<lambda>d. d_action d = a) rs)
       + weighted_sum agents (filter (\<lambda>d. d_action d = b) rs)
       + weighted_sum agents (filter (\<lambda>d. d_action d = c) rs)
       = weighted_sum agents rs"
  using assms by (induction rs) (auto simp: weighted_sum_def)

lemma three_keys:
  assumes "map fst al = [a, b, c]"
  shows "\<exists>x y z. al = [(a, x), (b, y), (c, z)]"
  using assms by (auto simp: map_eq_Cons_conv)

text \<open>
  C1, as the code has it. For decisions whose actions are BUY, SELL or HOLD and a total
  weight above 0, the vote of each action is the sum of weight times confidence over the
  decisions for that action, divided by the total weight; and the three votes add up to
  the sum of weight times confidence over all decisions, divided by the total weight (the
  weighted mean of the confidences).
\<close>

theorem weighted_vote_votes:
  assumes valid: "\<forall>d\<in>set results. d_action d \<in> {''BUY'', ''SELL'', ''HOLD''}"
      and pos: "0 < total_of agents results"
  shows "\<exists>sg. weighted_vote agents results = Inr sg
     \<and> (\<forall>a\<in>{''BUY'', ''SELL'', ''HOLD''}.
           map_of (sig_votes sg) a =
             Some (weighted_sum agents (filter (\<lambda>d. d_action d = a) results)
                     / total_of agents results))
     \<and> votes_sum sg = weighted_sum agents results / total_of agents results"
proof -
  let ?T = "total_of agents results"
  let ?W = "\<lambda>a. weighted_sum agents (filter (\<lambda>d. d_action d = a) results)"
  from valid have "\<forall>d\<in>set results. d_action d \<in> set (map fst (votes initial_vote_state))"
    by (simp add: initial_vote_state_def)
  from vote_loop_sums [OF this, of agents] obtain acc where acc:
    "vote_loop agents results initial_vote_state = Inr acc"
    "map fst (votes acc) = map fst (votes initial_vote_state)"
    "\<forall>a v. map_of (votes initial_vote_state) a = Some v \<longrightarrow> map_of (votes acc) a = Some (v + ?W a)"
    "total_weight acc = total_weight initial_vote_state + ?T"
    by blast
  have tw: "total_weight acc = ?T" using acc(4) by (simp add: initial_vote_state_def)
  have keys: "map fst (votes acc) = [''BUY'', ''SELL'', ''HOLD'']"
    using acc(2) by (simp add: initial_vote_state_def)
  from three_keys [OF keys]
  obtain x y z where xyz: "votes acc = [(''BUY'', x), (''SELL'', y), (''HOLD'', z)]"
    by (elim exE)
  have "map_of (votes acc) ''BUY'' = Some (0 + ?W ''BUY'')"
    by (rule acc(3) [rule_format]) (simp add: initial_vote_state_def)
  with xyz have x: "x = ?W ''BUY''" by simp
  have "map_of (votes acc) ''SELL'' = Some (0 + ?W ''SELL'')"
    by (rule acc(3) [rule_format]) (simp add: initial_vote_state_def)
  with xyz have y: "y = ?W ''SELL''" by simp
  have "map_of (votes acc) ''HOLD'' = Some (0 + ?W ''HOLD'')"
    by (rule acc(3) [rule_format]) (simp add: initial_vote_state_def)
  with xyz have z: "z = ?W ''HOLD''" by simp
  define sg where "sg =
      \<lparr>sig_symbol = None,
       sig_action = fst (max_by_value (''BUY'', x / ?T) [(''SELL'', y / ?T), (''HOLD'', z / ?T)]),
       sig_confidence = (if confidences acc \<noteq> [] then mean (confidences acc) else 0),
       sig_reason = join '' | '' (reasons acc),
       sig_votes = [(''BUY'', x / ?T), (''SELL'', y / ?T), (''HOLD'', z / ?T)]\<rparr>"
  have wv: "weighted_vote agents results = Inr sg"
    using acc(1) tw pos xyz by (simp add: weighted_vote_def sg_def Let_def)
  have "x + y + z = weighted_sum agents results"
    unfolding x y z by (rule weighted_sum_split) (use valid in auto)
  then have "(x + y + z) / ?T = weighted_sum agents results / ?T"
    by simp
  then have "votes_sum sg = weighted_sum agents results / ?T"
    by (simp add: votes_sum_def sg_def add_divide_distrib add.assoc)
  moreover have "\<forall>a\<in>{''BUY'', ''SELL'', ''HOLD''}. map_of (sig_votes sg) a = Some (?W a / ?T)"
    by (simp add: sg_def x y z)
  ultimately show ?thesis using wv by blast
qed

theorem weighted_vote_votes_witness:
  "set (map d_action scenario_A_results) \<subseteq> {''BUY'', ''SELL'', ''HOLD''}
   \<and> 0 < total_of scenario_A_agents scenario_A_results
   \<and> (\<exists>sg. weighted_vote scenario_A_agents scenario_A_results = Inr sg
          \<and> map_of (sig_votes sg) ''BUY'' = Some (36 / 65)
          \<and> map_of (sig_votes sg) ''SELL'' = Some (3 / 13)
          \<and> map_of (sig_votes sg) ''HOLD'' = Some 0
          \<and> votes_sum sg = 51 / 65)"
proof -
  have h1: "\<forall>d\<in>set scenario_A_results. d_action d \<in> {''BUY'', ''SELL'', ''HOLD''}"
    by (simp add: scenario_A_results_def)
  have w: "weight_of scenario_A_agents d =
             (if d_agent d = ''A'' then 4 / 5 else if d_agent d = ''B'' then 1 / 2 else 0)" for d
    by (simp add: weight_of_def scenario_A_agents_def loaded_agent_def)
  have h2: "0 < total_of scenario_A_agents scenario_A_results"
    by (simp add: total_of_def w scenario_A_results_def)
  from weighted_vote_votes [OF h1 h2] obtain sg where sg:
    "weighted_vote scenario_A_agents scenario_A_results = Inr sg"
    "\<forall>a\<in>{''BUY'', ''SELL'', ''HOLD''}.
        map_of (sig_votes sg) a =
          Some (weighted_sum scenario_A_agents (filter (\<lambda>d. d_action d = a) scenario_A_results)
                  / total_of scenario_A_agents scenario_A_results)"
    "votes_sum sg = weighted_sum scenario_A_agents scenario_A_results
                      / total_of scenario_A_agents scenario_A_results"
    by (elim exE conjE) (rule that)
  have t: "total_of scenario_A_agents scenario_A_results = 13 / 10"
    by (simp add: total_of_def w scenario_A_results_def)
  have b: "map_of (sig_votes sg) ''BUY'' = Some (36 / 65)"
    using sg(2) unfolding t by (simp add: weighted_sum_def w scenario_A_results_def)
  have s: "map_of (sig_votes sg) ''SELL'' = Some (3 / 13)"
    using sg(2) unfolding t by (simp add: weighted_sum_def w scenario_A_results_def)
  have h: "map_of (sig_votes sg) ''HOLD'' = Some 0"
    using sg(2) unfolding t by (simp add: weighted_sum_def w scenario_A_results_def)
  have v: "votes_sum sg = 51 / 65"
    using sg(3) unfolding t by (simp add: weighted_sum_def w scenario_A_results_def)
  from sg(1) b s h v have "\<exists>sg. weighted_vote scenario_A_agents scenario_A_results = Inr sg
          \<and> map_of (sig_votes sg) ''BUY'' = Some (36 / 65)
          \<and> map_of (sig_votes sg) ''SELL'' = Some (3 / 13)
          \<and> map_of (sig_votes sg) ''HOLD'' = Some 0
          \<and> votes_sum sg = 51 / 65"
    by (intro exI [of _ sg] conjI)
  moreover have "set (map d_action scenario_A_results) \<subseteq> {''BUY'', ''SELL'', ''HOLD''}"
    by (simp add: scenario_A_results_def)
  ultimately show ?thesis using h2 by (intro conjI)
qed

text \<open>
  C1 as stated fails in its second half: for agent A (weight 0.8, BUY with confidence 0.9)
  and agent B (weight 0.5, SELL with confidence 0.6) the total weight is 1.3 and the votes
  add up to 51/65, about 0.78, not to 1.
\<close>

theorem votes_sum_not_one:
  "map_sum id votes_sum (weighted_vote scenario_A_agents scenario_A_results) = Inr (51 / 65)
   \<and> total_of scenario_A_agents scenario_A_results = 13 / 10"
  by (simp add: weighted_vote_def scenario_A_agents_def scenario_A_results_def loaded_agent_def
        initial_vote_state_def votes_sum_def weight_of_def total_of_def Let_def mean_def)

subsection \<open>Performance scoring\<close>

lemma score_rows_skip:
  "\<not> or_zero (row_trade_count row) \<ge> 10 \<Longrightarrow>
     score_rows ps (row # rest) db agents = score_rows ps rest db agents"
  by simp

lemma score_rows_fail:
  "or_zero (row_trade_count row) \<ge> 10 \<Longrightarrow>
   fst (execute ps (UpdatePerformanceScore
          (composite_score (or_zero (row_win_rate row)) (or_zero (row_avg_pnl row)))
          (row_agent_name row)) db) \<noteq> None \<Longrightarrow>
   snd (snd (score_rows ps (row # rest) db agents)) = agents \<and>
   fst (score_rows ps (row # rest) db agents) \<noteq> None"
  by (simp add: Let_def)

lemma score_rows_ok:
  "or_zero (row_trade_count row) \<ge> 10 \<Longrightarrow>
   fst (execute ps (UpdatePerformanceScore
          (composite_score (or_zero (row_win_rate row)) (or_zero (row_avg_pnl row)))
          (row_agent_name row)) db) = None \<Longrightarrow>
   score_rows ps (row # rest) db agents =
     score_rows ps rest
       (snd (execute ps (UpdatePerformanceScore
          (composite_score (or_zero (row_win_rate row)) (or_zero (row_avg_pnl row)))
          (row_agent_name row)) db))
       (set_performance_score (row_agent_name row)
          (composite_score (or_zero (row_win_rate row)) (or_zero (row_avg_pnl row))) agents)"
  by (simp add: Let_def)

lemma score_rows_agents:
  "snd (snd (score_rows ps rows db agents)) =
     apply_scores (take (rows_handled ps rows db) rows) agents"
proof (induction rows arbitrary: db agents)
  case Nil
  show ?case by simp
next
  case (Cons row rows)
  let ?score = "composite_score (or_zero (row_win_rate row)) (or_zero (row_avg_pnl row))"
  let ?ex = "execute ps (UpdatePerformanceScore ?score (row_agent_name row)) db"
  let ?agents = "set_performance_score (row_agent_name row) ?score agents"
  show ?case
  proof (cases "or_zero (row_trade_count row) \<ge> 10")
    case False
    then have k: "rows_handled ps (row # rows) db = Suc (rows_handled ps rows db)"
      by simp
    show ?thesis
      unfolding k score_rows_skip [OF False]
      using False Cons.IH [of db agents] by simp
  next
    case True
    show ?thesis
    proof (cases "fst ?ex = None")
      case False
      with True have k: "rows_handled ps (row # rows) db = 0"
        by (simp add: Let_def)
      show ?thesis
        unfolding k using score_rows_fail [OF True False, of rows agents] by simp
    next
      case ok: True
      with True have k: "rows_handled ps (row # rows) db = Suc (rows_handled ps rows (snd ?ex))"
        by (simp add: Let_def)
      show ?thesis
        unfolding k score_rows_ok [OF True ok]
        using True Cons.IH [of "snd ?ex" ?agents] by simp
    qed
  qed
qed

lemma rows_handled_le: "rows_handled ps rows db \<le> length rows"
  by (induction rows arbitrary: db) (simp_all add: Let_def)

lemma score_rows_all_handled:
  "(fst (score_rows ps rows db agents) = None) = (rows_handled ps rows db = length rows)"
proof (induction rows arbitrary: db agents)
  case Nil
  show ?case by simp
next
  case (Cons row rows)
  let ?score = "composite_score (or_zero (row_win_rate row)) (or_zero (row_avg_pnl row))"
  let ?ex = "execute ps (UpdatePerformanceScore ?score (row_agent_name row)) db"
  show ?case
  proof (cases "or_zero (row_trade_count row) \<ge> 10")
    case False
    then show ?thesis
      using Cons.IH [of db agents] by (simp add: score_rows_skip [OF False] del: score_rows.simps)
  next
    case True
    show ?thesis
    proof (cases "fst ?ex = None")
      case False
      with True show ?thesis
        using score_rows_fail [OF True False, of rows agents]
        by (simp add: Let_def del: score_rows.simps)
    next
      case ok: True
      with True show ?thesis
        using Cons.IH [of "snd ?ex" "set_performance_score (row_agent_name row) ?score agents"]
        by (simp add: score_rows_ok [OF True ok] Let_def del: score_rows.simps)
    qed
  qed
qed

text \<open>
  C7, as the code has it. When the query of a scoring pass raises, the pass is skipped and
  the live agents are left as they were. When the query returns rows, the live agents after
  the pass are exactly those obtained by applying, in order, the score updates of the rows
  handled before the first UPDATE that raised (all the rows when none raised): the agents
  of those rows keep their new scores, whatever fails afterwards, and nothing else changes.
\<close>

theorem scoring_pass_is_partial:
  "(\<forall>e. select_performance ps (db_conn orch) = Inl e \<longrightarrow>
        active_agents (update_performance_scores ps orch) = active_agents orch)
 \<and> (\<forall>rows. select_performance ps (db_conn orch) = Inr rows \<longrightarrow>
        active_agents (update_performance_scores ps orch) =
          apply_scores (take (rows_handled ps rows (db_conn orch)) rows) (active_agents orch))"
proof (intro conjI allI impI)
  fix e assume "select_performance ps (db_conn orch) = Inl e"
  then show "active_agents (update_performance_scores ps orch) = active_agents orch"
    by (simp add: update_performance_scores_def)
next
  fix rows assume sel: "select_performance ps (db_conn orch) = Inr rows"
  have "active_agents (update_performance_scores ps orch) =
          snd (snd (score_rows ps rows (db_conn orch) (active_agents orch)))"
    using sel by (simp add: update_performance_scores_def split: prod.splits option.splits)
  then show "active_agents (update_performance_scores ps orch) =
          apply_scores (take (rows_handled ps rows (db_conn orch)) rows) (active_agents orch)"
    by (simp only: score_rows_agents)
qed

theorem scoring_pass_is_partial_witness:
  "select_performance down_persistence (db_conn two_agent_orchestrator)
     = Inl (Exception ''connection lost'')
   \<and> scores (update_performance_scores down_persistence two_agent_orchestrator) =
       [(''technical'', 1 / 2), (''sentiment'', 1 / 2)]
   \<and> select_performance flaky_persistence (db_conn two_agent_orchestrator) = Inr scenario_rows
   \<and> rows_handled flaky_persistence scenario_rows (db_conn two_agent_orchestrator) = 1
   \<and> scores (update_performance_scores flaky_persistence two_agent_orchestrator) =
       [(''technical'', 1003 / 2000), (''sentiment'', 1 / 2)]"
proof -
  have h1: "select_performance down_persistence (db_conn two_agent_orchestrator)
              = Inl (Exception ''connection lost'')"
    by (simp add: down_persistence_def)
  have h2: "select_performance flaky_persistence (db_conn two_agent_orchestrator) = Inr scenario_rows"
    by (simp add: flaky_persistence_def)
  note t1 = scoring_pass_is_partial [of down_persistence two_agent_orchestrator,
              THEN conjunct1, rule_format, OF h1]
  note t2 = scoring_pass_is_partial [of flaky_persistence two_agent_orchestrator,
              THEN conjunct2, rule_format, OF h2]
  have k: "rows_handled flaky_persistence scenario_rows (db_conn two_agent_orchestrator) = 1"
    by (simp add: flaky_persistence_def scenario_rows_def two_agent_orchestrator_def
          orchestrator_of_def or_zero_def Let_def)
  have a: "scores (update_performance_scores down_persistence two_agent_orchestrator) =
             [(''technical'', 1 / 2), (''sentiment'', 1 / 2)]"
    unfolding scores_def t1
    by (simp add: two_agent_orchestrator_def orchestrator_of_def loaded_agent_def)
  have b: "scores (update_performance_scores flaky_persistence two_agent_orchestrator) =
             [(''technical'', 1003 / 2000), (''sentiment'', 1 / 2)]"
    unfolding scores_def t2 k
    by (simp add: scenario_rows_def two_agent_orchestrator_def orchestrator_of_def
          loaded_agent_def or_zero_def composite_score_def set_performance_score_def)
  from h1 a h2 k b show ?thesis by (intro conjI)
qed

text \<open>
  C7 as stated fails: with two rows, when the second UPDATE raises, the score of the first
  row's agent has already been changed in memory and stays changed.
\<close>

theorem scoring_pass_partial_update:
  "fst (execute flaky_persistence (UpdatePerformanceScore 0 ''sentiment'') 1) \<noteq> None
   \<and> scores two_agent_orchestrator = [(''technical'', 1 / 2), (''sentiment'', 1 / 2)]
   \<and> scores (update_performance_scores flaky_persistence two_agent_orchestrator) =
       [(''technical'', 1003 / 2000), (''sentiment'', 1 / 2)]"
  by (simp add: flaky_persistence_def scores_def two_agent_orchestrator_def orchestrator_of_def
        loaded_agent_def update_performance_scores_def scenario_rows_def or_zero_def
        composite_score_def set_performance_score_def Let_def)

subsection \<open>The gates of the ensemble signal\<close>

lemma market_conditions_pass: "validate_market_conditions now symbol sg"
  using hour_range [of now] by (simp add: validate_market_conditions_def Let_def)

lemma validate_signal_low:
  "sig_confidence sg < confidence_threshold st \<Longrightarrow> validate_signal st now v symbol sg = (False, v)"
  by (simp add: validate_signal_def validate_confidence_def)

lemma validate_signal_snd:
  "snd (validate_signal st now v symbol sg) =
     (if fst (validate_signal st now v symbol sg) then record_signal now v sg else v)"
  by (simp add: validate_signal_def)

lemma confidence_gate_confidence: "sig_confidence (confidence_gate st rt sg) = sig_confidence sg"
  by (simp add: confidence_gate_def)

lemma frequency_check_without_symbol:
  assumes "sig_symbol sg = None"
  shows "validate_signal_frequency v now sg"
proof -
  have "same_symbol sg = (\<lambda>s. False)"
    using assms by (simp add: same_symbol_def fun_eq_iff)
  then have "find (same_symbol sg) xs = None" and "filter (same_symbol sg) xs = []" for xs
    by (simp_all add: find_None_iff)
  then show ?thesis
    by (simp add: validate_signal_frequency_def Let_def)
qed

lemma record_signal_bounded:
  "length (recent_signals v) \<le> max_signal_history v \<Longrightarrow>
     length (recent_signals (record_signal now v sg)) \<le> max_signal_history (record_signal now v sg)"
  by (simp add: record_signal_def Let_def)

lemma log_signal_unchanged: "log_signal ps now db symbol ensemble_result agent_results = db"
  by (simp add: log_signal_def json_dumps_def)

lemma run_agents_validator:
  "run_agents rt orch dat = (results, orch1) \<Longrightarrow> signal_validator orch1 = signal_validator orch"
  by (auto simp: run_agents_def Let_def)

lemma get_ensemble_signal_vote_stage:
  assumes "active_agents orch \<noteq> []"
      and "run_agents rt orch (request_data symbol mkt news) = (results, orch1)"
      and "valid_results_of results \<noteq> []"
      and "weighted_vote (active_agents orch1) (valid_results_of results) = Inr voted"
  shows "get_ensemble_signal st rt ps now orch symbol mkt news =
     (let gated = confidence_gate st rt voted;
          checked = validate_signal st now (signal_validator orch1) symbol gated;
          ensemble_result =
            (if \<not> fst checked
             then gated\<lparr>sig_action := ''HOLD'',
                        sig_reason := sig_reason gated @ '' | Failed signal validation''\<rparr>
             else gated)
      in (Inr ensemble_result,
          orch1\<lparr>signal_validator := snd checked,
                db_conn := log_signal ps now (db_conn orch1) symbol ensemble_result
                             (valid_results_of results)\<rparr>))"
  using assms by (simp add: get_ensemble_signal_def Let_def split: prod.splits)

text \<open>The scenarios with one loaded agent, evaluated.\<close>

lemma predict_loaded_agent:
  "predict offline_runtime (loaded_agent nm score act c) dat =
     (Inr \<lparr>d_agent = nm, d_action = act, d_confidence = c, d_reason = ''Model prediction''\<rparr>,
      loaded_agent nm score act c)"
  by (simp add: predict_def predict_body_def loaded_agent_def offline_runtime_def
        scenario_postprocess_def constant_model_def)

lemma run_single_agent:
  assumes "active_agents orch = [(nm, loaded_agent nm score act c)]"
  shows "run_agents offline_runtime orch dat =
           ([Inr \<lparr>d_agent = nm, d_action = act, d_confidence = c,
                   d_reason = ''Model prediction''\<rparr>], orch)"
proof -
  have same: "orch\<lparr>active_agents := [(nm, loaded_agent nm score act c)]\<rparr> = orch"
    unfolding assms [symmetric] by simp
  show ?thesis
    by (simp add: run_agents_def assms predict_loaded_agent same)
qed

lemma vote_single_buy:
  assumes "0 < score" and "0 \<le> c"
  shows "weighted_vote [(''technical'', loaded_agent ''technical'' score ''BUY'' c)]
           [\<lparr>d_agent = ''technical'', d_action = ''BUY'', d_confidence = c,
             d_reason = ''Model prediction''\<rparr>] =
         Inr \<lparr>sig_symbol = None, sig_action = ''BUY'', sig_confidence = c,
              sig_reason = ''technical: Model prediction'',
              sig_votes = [(''BUY'', c), (''SELL'', 0), (''HOLD'', 0)]\<rparr>"
  using assms
  by (simp add: weighted_vote_def initial_vote_state_def loaded_agent_def Let_def mean_def)

lemma timid_stage:
  "active_agents timid_orchestrator \<noteq> []"
  "run_agents offline_runtime timid_orchestrator (request_data ''EURUSD'' [] None) =
     ([Inr \<lparr>d_agent = ''technical'', d_action = ''BUY'', d_confidence = 3 / 10,
             d_reason = ''Model prediction''\<rparr>], timid_orchestrator)"
  "valid_results_of [Inr \<lparr>d_agent = ''technical'', d_action = ''BUY'', d_confidence = 3 / 10,
                          d_reason = ''Model prediction''\<rparr>] \<noteq> []"
  "weighted_vote (active_agents timid_orchestrator)
     (valid_results_of [Inr \<lparr>d_agent = ''technical'', d_action = ''BUY'', d_confidence = 3 / 10,
                             d_reason = ''Model prediction''\<rparr>]) =
     Inr \<lparr>sig_symbol = None, sig_action = ''BUY'', sig_confidence = 3 / 10,
          sig_reason = ''technical: Model prediction'',
          sig_votes = [(''BUY'', 3 / 10), (''SELL'', 0), (''HOLD'', 0)]\<rparr>"
proof -
  let ?d = "\<lparr>d_agent = ''technical'', d_action = ''BUY'', d_confidence = 3 / 10,
             d_reason = ''Model prediction''\<rparr>"
  have ag: "active_agents timid_orchestrator =
              [(''technical'', loaded_agent ''technical'' (4 / 5) ''BUY'' (3 / 10))]"
    by (simp add: timid_orchestrator_def orchestrator_of_def loaded_agent_def)
  show "active_agents timid_orchestrator \<noteq> []"
    by (simp add: ag)
  show "run_agents offline_runtime timid_orchestrator (request_data ''EURUSD'' [] None) =
          ([Inr ?d], timid_orchestrator)"
    by (rule run_single_agent [OF ag])
  have valid: "valid_results_of [Inr ?d] = [?d]"
    by (simp add: valid_results_of_def)
  show "valid_results_of [Inr ?d] \<noteq> []"
    by (simp add: valid)
  show "weighted_vote (active_agents timid_orchestrator) (valid_results_of [Inr ?d]) =
     Inr \<lparr>sig_symbol = None, sig_action = ''BUY'', sig_confidence = 3 / 10,
          sig_reason = ''technical: Model prediction'',
          sig_votes = [(''BUY'', 3 / 10), (''SELL'', 0), (''HOLD'', 0)]\<rparr>"
    unfolding valid ag by (rule vote_single_buy) simp_all
qed

lemma timid_call:
  "get_ensemble_signal default_settings offline_runtime void_persistence now timid_orchestrator
       ''EURUSD'' [] None =
     (Inr timid_signal, timid_orchestrator)"
proof -
  let ?voted = "\<lparr>sig_symbol = None, sig_action = ''BUY'', sig_confidence = 3 / 10,
              sig_reason = ''technical: Model prediction'',
              sig_votes = [(''BUY'', 3 / 10), (''SELL'', 0), (''HOLD'', 0)]\<rparr>"
  have low: "sig_confidence (confidence_gate default_settings offline_runtime ?voted)
               < confidence_threshold default_settings"
    by (simp add: confidence_gate_def default_settings_def)
  show ?thesis
    unfolding get_ensemble_signal_vote_stage [OF timid_stage]
    by (simp add: Let_def validate_signal_low [OF low] log_signal_unchanged)
       (simp add: confidence_gate_def default_settings_def offline_runtime_def timid_signal_def)
qed

lemma confident_call:
  assumes ag: "active_agents orch = active_agents confident_orchestrator"
  shows "get_ensemble_signal default_settings offline_runtime void_persistence now orch
           ''EURUSD'' [] None =
         (Inr confident_signal,
          orch\<lparr>signal_validator := record_signal now (signal_validator orch) confident_signal\<rparr>)"
proof -
  let ?agents = "[(''technical'', loaded_agent ''technical'' 0.8 ''BUY'' 0.9)]"
  let ?d = "\<lparr>d_agent = ''technical'', d_action = ''BUY'', d_confidence = 0.9,
             d_reason = ''Model prediction''\<rparr>"
  have ag': "active_agents orch = ?agents"
    unfolding ag by (simp add: confident_orchestrator_def orchestrator_of_def loaded_agent_def)
  have ne: "active_agents orch \<noteq> []"
    by (simp add: ag')
  have run: "run_agents offline_runtime orch (request_data ''EURUSD'' [] None) = ([Inr ?d], orch)"
    by (rule run_single_agent [OF ag'])
  have valid: "valid_results_of [Inr ?d] = [?d]"
    by (simp add: valid_results_of_def)
  have vote: "weighted_vote (active_agents orch) (valid_results_of [Inr ?d]) = Inr confident_signal"
    unfolding valid ag' confident_signal_def
    using vote_single_buy [of "0.8" "0.9"] by simp
  have gate: "confidence_gate default_settings offline_runtime confident_signal = confident_signal"
    by (simp add: confidence_gate_def default_settings_def confident_signal_def)
  have ok: "validate_signal default_settings now v ''EURUSD'' confident_signal =
              (True, record_signal now v confident_signal)" for v
  proof -
    have "validate_signal_frequency v now confident_signal"
      by (rule frequency_check_without_symbol) (simp add: confident_signal_def)
    then show ?thesis
      by (simp add: validate_signal_def market_conditions_pass validate_basic_structure_def
            validate_confidence_def validate_risk_management_def validate_volatility_def
            validate_spread_def default_settings_def confident_signal_def)
  qed
  show ?thesis
    unfolding get_ensemble_signal_vote_stage [OF ne run _ vote, unfolded valid, simplified]
    by (simp add: Let_def gate ok log_signal_unchanged)
qed

lemma confident_calls:
  "active_agents orch = active_agents confident_orchestrator \<Longrightarrow>
     successive_calls default_settings offline_runtime void_persistence ''EURUSD'' ts orch =
       map (\<lambda>t. Inr confident_signal) ts"
  by (induction ts arbitrary: orch) (simp_all add: confident_call)

subsection \<open>Confidence gate\<close>

text \<open>
  C3, as the code has it. Any signal that \<open>get_ensemble_signal\<close> returns with a
  confidence below the threshold has the action HOLD. When the call reached the weighted
  vote and the vote's confidence is below the threshold, the signal returned is the vote's
  signal with the action HOLD and with the fragments of the confidence gate and of the
  validator (which rejects it for the same reason) appended to its reason: the votes and
  the confidence are those of the vote.
\<close>

theorem low_confidence_is_hold:
  "(\<forall>sg. fst (get_ensemble_signal st rt ps now orch symbol mkt news) = Inr sg \<and>
         sig_confidence sg < confidence_threshold st \<longrightarrow> sig_action sg = ''HOLD'')
 \<and> (\<forall>results orch1 voted.
        active_agents orch \<noteq> [] \<and>
        run_agents rt orch (request_data symbol mkt news) = (results, orch1) \<and>
        valid_results_of results \<noteq> [] \<and>
        weighted_vote (active_agents orch1) (valid_results_of results) = Inr voted \<and>
        sig_confidence voted < confidence_threshold st \<longrightarrow>
        fst (get_ensemble_signal st rt ps now orch symbol mkt news) =
          Inr (voted\<lparr>sig_action := ''HOLD'',
                      sig_reason := sig_reason voted @ '' | Confidence below threshold (''
                                      @ float_str rt (confidence_threshold st) @ '')''
                                      @ '' | Failed signal validation''\<rparr>))"
proof (intro conjI allI impI)
  fix sg
  assume "fst (get_ensemble_signal st rt ps now orch symbol mkt news) = Inr sg \<and>
          sig_confidence sg < confidence_threshold st"
  then show "sig_action sg = ''HOLD''"
    by (auto simp: get_ensemble_signal_def Let_def hold_signal_def confidence_gate_def
             split: prod.splits sum.splits if_splits)
next
  fix results orch1 voted
  assume a: "active_agents orch \<noteq> [] \<and>
        run_agents rt orch (request_data symbol mkt news) = (results, orch1) \<and>
        valid_results_of results \<noteq> [] \<and>
        weighted_vote (active_agents orch1) (valid_results_of results) = Inr voted \<and>
        sig_confidence voted < confidence_threshold st"
  then have low: "sig_confidence (confidence_gate st rt voted) < confidence_threshold st"
    by (simp add: confidence_gate_confidence)
  from a have stage: "get_ensemble_signal st rt ps now orch symbol mkt news =
     (let gated = confidence_gate st rt voted;
          checked = validate_signal st now (signal_validator orch1) symbol gated;
          ensemble_result =
            (if \<not> fst checked
             then gated\<lparr>sig_action := ''HOLD'',
                        sig_reason := sig_reason gated @ '' | Failed signal validation''\<rparr>
             else gated)
      in (Inr ensemble_result,
          orch1\<lparr>signal_validator := snd checked,
                db_conn := log_signal ps now (db_conn orch1) symbol ensemble_result
                             (valid_results_of results)\<rparr>))"
    by (intro get_ensemble_signal_vote_stage) simp_all
  show "fst (get_ensemble_signal st rt ps now orch symbol mkt news) =
          Inr (voted\<lparr>sig_action := ''HOLD'',
                      sig_reason := sig_reason voted @ '' | Confidence below threshold (''
                                      @ float_str rt (confidence_threshold st) @ '')''
                                      @ '' | Failed signal validation''\<rparr>)"
    unfolding stage using a
    by (simp add: Let_def validate_signal_low [OF low]) (simp add: confidence_gate_def)
qed

theorem low_confidence_is_hold_witness:
  "active_agents timid_orchestrator \<noteq> []
   \<and> fst (get_ensemble_signal default_settings offline_runtime void_persistence 0
            timid_orchestrator ''EURUSD'' [] None) = Inr timid_signal
   \<and> sig_confidence timid_signal < confidence_threshold default_settings
   \<and> sig_action timid_signal = ''HOLD''
   \<and> sig_votes timid_signal = [(''BUY'', 3 / 10), (''SELL'', 0), (''HOLD'', 0)]"
proof -
  let ?voted = "\<lparr>sig_symbol = None, sig_action = ''BUY'', sig_confidence = 3 / 10,
              sig_reason = ''technical: Model prediction'',
              sig_votes = [(''BUY'', 3 / 10), (''SELL'', 0), (''HOLD'', 0)]\<rparr>"
  note t = low_confidence_is_hold [of default_settings offline_runtime void_persistence 0
             timid_orchestrator "''EURUSD''" "[]" None]
  have low: "sig_confidence ?voted < confidence_threshold default_settings"
    by (simp add: default_settings_def)
  from t [THEN conjunct2, rule_format, OF conjI [OF timid_stage(1) conjI [OF timid_stage(2)
            conjI [OF timid_stage(3) conjI [OF timid_stage(4) low]]]]]
  have e: "fst (get_ensemble_signal default_settings offline_runtime void_persistence 0
                  timid_orchestrator ''EURUSD'' [] None) = Inr timid_signal"
    by (simp add: timid_signal_def default_settings_def offline_runtime_def)
  have c: "sig_confidence timid_signal < confidence_threshold default_settings"
    by (simp add: timid_signal_def default_settings_def)
  from t [THEN conjunct1, rule_format, OF conjI [OF e c]]
  have h: "sig_action timid_signal = ''HOLD''" .
  have v: "sig_votes timid_signal = [(''BUY'', 3 / 10), (''SELL'', 0), (''HOLD'', 0)]"
    by (simp add: timid_signal_def)
  from timid_stage(1) e c h v show ?thesis by (intro conjI)
qed

text \<open>
  C3 as stated fails on the early returns: with no active agent the signal returned has
  confidence 0, below the threshold 0.75, and its reason is the fixed text of that return
  with no fragment of the confidence gate in it.
\<close>

theorem early_return_has_no_fragment:
  "fst (get_ensemble_signal default_settings offline_runtime void_persistence 0
          idle_orchestrator ''EURUSD'' [] None) = Inr (hold_signal ''No active agents available'')
   \<and> sig_confidence (hold_signal ''No active agents available'')
       < confidence_threshold default_settings
   \<and> \<not> sublist ''Confidence below threshold''
          (sig_reason (hold_signal ''No active agents available''))"
  by (simp add: get_ensemble_signal_def idle_orchestrator_def orchestrator_of_def hold_signal_def
        default_settings_def sublist_Cons_right)

subsection \<open>Frequency memory\<close>

text \<open>
  C8, as the code has it. A call of \<open>get_ensemble_signal\<close> that reaches the weighted
  vote records the signal into the validator's memory exactly when the validator accepts
  the signal that left the confidence gate; otherwise the memory is left as it was, and
  that is so in particular whenever the confidence gate has forced HOLD. A memory within
  its bound stays within it.
\<close>

theorem ensemble_records_only_validated:
  assumes "active_agents orch \<noteq> []"
      and "run_agents rt orch (request_data symbol mkt news) = (results, orch1)"
      and "valid_results_of results \<noteq> []"
      and "weighted_vote (active_agents orch1) (valid_results_of results) = Inr voted"
  shows "signal_validator (snd (get_ensemble_signal st rt ps now orch symbol mkt news)) =
           (if fst (validate_signal st now (signal_validator orch) symbol (confidence_gate st rt voted))
            then record_signal now (signal_validator orch) (confidence_gate st rt voted)
            else signal_validator orch)
       \<and> (sig_confidence voted < confidence_threshold st \<longrightarrow>
            signal_validator (snd (get_ensemble_signal st rt ps now orch symbol mkt news)) =
              signal_validator orch)
       \<and> (length (recent_signals (signal_validator orch)) \<le> max_signal_history (signal_validator orch) \<longrightarrow>
            length (recent_signals
                      (signal_validator (snd (get_ensemble_signal st rt ps now orch symbol mkt news))))
              \<le> max_signal_history
                    (signal_validator (snd (get_ensemble_signal st rt ps now orch symbol mkt news))))"
proof -
  let ?after = "signal_validator (snd (get_ensemble_signal st rt ps now orch symbol mkt news))"
  let ?gated = "confidence_gate st rt voted"
  have v: "signal_validator orch1 = signal_validator orch"
    using assms(2) by (rule run_agents_validator)
  have first: "?after =
           (if fst (validate_signal st now (signal_validator orch) symbol ?gated)
            then record_signal now (signal_validator orch) ?gated
            else signal_validator orch)"
    unfolding get_ensemble_signal_vote_stage [OF assms]
    by (simp add: Let_def v validate_signal_snd)
  have second: "?after = signal_validator orch" if "sig_confidence voted < confidence_threshold st"
    using that first by (simp add: validate_signal_low confidence_gate_confidence)
  have third: "length (recent_signals ?after) \<le> max_signal_history ?after"
    if "length (recent_signals (signal_validator orch)) \<le> max_signal_history (signal_validator orch)"
    unfolding first using that by (simp add: record_signal_bounded)
  from first second third show ?thesis by (intro conjI impI)
qed

theorem ensemble_records_only_validated_witness:
  "active_agents confident_orchestrator \<noteq> []
   \<and> valid_results_of
        (fst (run_agents offline_runtime confident_orchestrator (request_data ''EURUSD'' [] None)))
        \<noteq> []
   \<and> recent_signals (signal_validator
        (snd (get_ensemble_signal default_settings offline_runtime void_persistence 0
                confident_orchestrator ''EURUSD'' [] None))) =
       [\<lparr>rec_symbol = ''UNKNOWN'', rec_action = ''BUY'', rec_confidence = 9 / 10,
         rec_timestamp = 0\<rparr>]"
proof -
  let ?agents = "[(''technical'', loaded_agent ''technical'' 0.8 ''BUY'' 0.9)]"
  let ?d = "\<lparr>d_agent = ''technical'', d_action = ''BUY'', d_confidence = 0.9,
             d_reason = ''Model prediction''\<rparr>"
  have ag: "active_agents confident_orchestrator = ?agents"
    by (simp add: confident_orchestrator_def orchestrator_of_def loaded_agent_def)
  have ne: "active_agents confident_orchestrator \<noteq> []"
    by (simp add: ag)
  have run: "run_agents offline_runtime confident_orchestrator (request_data ''EURUSD'' [] None) =
               ([Inr ?d], confident_orchestrator)"
    by (rule run_single_agent [OF ag])
  have valid: "valid_results_of [Inr ?d] = [?d]"
    by (simp add: valid_results_of_def)
  have vne: "valid_results_of [Inr ?d] \<noteq> []"
    by (simp add: valid)
  have vote: "weighted_vote (active_agents confident_orchestrator) (valid_results_of [Inr ?d]) =
                Inr confident_signal"
    unfolding valid ag confident_signal_def
    using vote_single_buy [of "0.8" "0.9"] by simp
  have gate: "confidence_gate default_settings offline_runtime confident_signal = confident_signal"
    by (simp add: confidence_gate_def default_settings_def confident_signal_def)
  have freq: "validate_signal_frequency v 0 confident_signal" for v
    by (rule frequency_check_without_symbol) (simp add: confident_signal_def)
  have ok: "fst (validate_signal default_settings 0 v ''EURUSD'' confident_signal)" for v
    using freq [of v]
    by (simp add: validate_signal_def market_conditions_pass validate_basic_structure_def
          validate_confidence_def validate_risk_management_def validate_volatility_def
          validate_spread_def default_settings_def confident_signal_def)
  note t = ensemble_records_only_validated [OF ne run vne vote, of default_settings
             void_persistence 0, THEN conjunct1]
  have "recent_signals (signal_validator
        (snd (get_ensemble_signal default_settings offline_runtime void_persistence 0
                confident_orchestrator ''EURUSD'' [] None))) =
       [\<lparr>rec_symbol = ''UNKNOWN'', rec_action = ''BUY'', rec_confidence = 9 / 10,
         rec_timestamp = 0\<rparr>]"
    unfolding t gate
    by (simp add: ok)
       (simp add: record_signal_def confident_signal_def confident_orchestrator_def
          orchestrator_of_def new_signal_validator_def Let_def)
  with ne vne show ?thesis by (simp add: run)
qed

text \<open>
  C8 as stated fails: a call whose signal the confidence gate forces to HOLD reaches the
  weighted vote and returns, and the validator's memory is as empty after it as before.
\<close>

theorem low_confidence_not_recorded:
  "fst (get_ensemble_signal default_settings offline_runtime void_persistence 0
          timid_orchestrator ''EURUSD'' [] None) = Inr timid_signal
   \<and> recent_signals (signal_validator timid_orchestrator) = []
   \<and> recent_signals (signal_validator
        (snd (get_ensemble_signal default_settings offline_runtime void_persistence 0
                timid_orchestrator ''EURUSD'' [] None))) = []"
  by (simp add: timid_call)
     (simp add: timid_orchestrator_def orchestrator_of_def new_signal_validator_def)

subsection \<open>Frequency gate\<close>

text \<open>
  Handed a signal that carries its symbol, the frequency check does what it is written
  for: it rejects the signal when three of the last 20 recorded signals are for that symbol,
  and when the last recorded signal for that symbol is less than 60 seconds old.
\<close>

lemma frequency_check_limit:
  assumes "sig_symbol sg = Some x"
      and "3 \<le> length (filter (\<lambda>s. rec_symbol s = x) (last_n 20 (recent_signals v)))"
  shows "\<not> validate_signal_frequency v now sg"
proof -
  have "same_symbol sg = (\<lambda>s. rec_symbol s = x)"
    using assms(1) by (simp add: same_symbol_def fun_eq_iff)
  with assms(2) show ?thesis
    by (simp add: validate_signal_frequency_def Let_def)
qed

lemma frequency_check_spacing:
  assumes "sig_symbol sg = Some x"
      and "find (\<lambda>s. rec_symbol s = x) (rev (recent_signals v)) = Some last_signal"
      and "0 \<le> now - rec_timestamp last_signal"
      and "now - rec_timestamp last_signal < 60000000"
  shows "\<not> validate_signal_frequency v now sg"
proof -
  have same: "same_symbol sg = (\<lambda>s. rec_symbol s = x)"
    using assms(1) by (simp add: same_symbol_def fun_eq_iff)
  have "(now - rec_timestamp last_signal) div 1000000 < 60"
    using assms(4) by simp
  moreover have "0 \<le> (now - rec_timestamp last_signal) div 1000000"
    using assms(3) by simp
  ultimately have "seconds (now - rec_timestamp last_signal) < 60"
    by (simp add: seconds_def)
  then show ?thesis
    by (simp add: validate_signal_frequency_def Let_def same assms(2))
qed

text \<open>
  C2 fails on the code. The signal that \<open>get_ensemble_signal\<close> hands to the validator
  has no symbol entry, and the frequency check compares the symbols of the recorded
  signals with that missing entry, so it never finds a recorded signal for the same symbol.
  Four calls for EURUSD within three seconds are all accepted and come back as BUY: neither
  the limit of three recent signals nor the spacing of 60 seconds stops any of them.
\<close>

theorem frequency_gate_bypassed:
  "successive_calls default_settings offline_runtime void_persistence ''EURUSD''
     [0, 1000000, 2000000, 3000000] confident_orchestrator =
   [Inr confident_signal, Inr confident_signal, Inr confident_signal, Inr confident_signal]"
  by (simp only: confident_calls [OF refl] list.map)

end
